theory Spec2Isabelle
  imports Complex_Main
begin

section \<open>Data model\<close>

text \<open>
  The analysed object is the pandas Series \<open>self.data['Close']\<close>: an ordered sequence of
  rows, each an index label (a timestamp) and a value (a closing price). Timestamps are
  modelled as integers (ticks since an epoch), so that the difference of two timestamps, a
  duration, is an integer too. A price is a finite float64 value, given by the rational
  number it denotes (zero is unsigned). Comparisons of prices are exact; every
  subtraction and division rounds its exact result to the nearest float64, as the
  hardware does.
\<close>

type_synonym timestamp = int
type_synonym price = rat
type_synonym series = "(timestamp \<times> price) list"

text \<open>The exceptions that the analysed code can raise.\<close>

datatype error = IndexError | ZeroDivisionError

section \<open>Float64 arithmetic\<close>

text \<open>
  The result of a float64 operation is a finite number, an infinity or not-a-number.
\<close>

datatype float64 = Finite rat | PInf | NInf | NaN

text \<open>The number of binary digits of a positive integer.\<close>

function bit_length :: "int \<Rightarrow> nat" where
  "bit_length n = (if n \<le> 0 then 0 else Suc (bit_length (n div 2)))"
  by pat_completeness auto
termination
  by (relation "measure nat") auto

declare bit_length.simps [simp del]

text \<open>The power of two with an integer exponent.\<close>

definition pow2 :: "int \<Rightarrow> rat" where
  "pow2 q = (if 0 \<le> q then 2 ^ nat q else 1 / 2 ^ nat (- q))"

text \<open>For \<open>x > 0\<close>, the exponent \<open>e\<close> with \<open>2 ^ e \<le> x < 2 ^ (e + 1)\<close>.\<close>

definition floor_log2 :: "rat \<Rightarrow> int" where
  "floor_log2 x =
     (if 1 \<le> x then int (bit_length \<lfloor>x\<rfloor>) - 1
      else - int (bit_length (\<lceil>1 / x\<rceil> - 1)))"

text \<open>Rounding to the nearest integer, a tie going to the even one.\<close>

definition round_half_even :: "rat \<Rightarrow> int" where
  "round_half_even y =
     (let f = \<lfloor>y\<rfloor>; d = y - of_int f
      in if d < 1 / 2 then f
         else if 1 / 2 < d then f + 1
         else if even f then f
         else f + 1)"

text \<open>
  Rounding of a positive rational to float64 (IEEE 754 binary64, round to nearest, ties
  to even): 53 significant bits, the exponent of the last bit no smaller than -1074
  (subnormal numbers), and infinity from \<open>2 ^ 1024\<close> on.
\<close>

definition f64_round_pos :: "rat \<Rightarrow> float64" where
  "f64_round_pos x =
     (let e = max (floor_log2 x) (- 1022);
          q = e - 52;
          m = round_half_even (x / pow2 q)
      in if 1024 \<le> e \<or> (e = 1023 \<and> m = 2 ^ 53) then PInf
         else Finite (of_int m * pow2 q))"

fun np_negative :: "float64 \<Rightarrow> float64" where
  "np_negative (Finite x) = Finite (- x)"
| "np_negative PInf = NInf"
| "np_negative NInf = PInf"
| "np_negative NaN = NaN"

definition f64_round :: "rat \<Rightarrow> float64" where
  "f64_round x =
     (if x = 0 then Finite 0
      else if 0 < x then f64_round_pos x
      else np_negative (f64_round_pos (- x)))"


text \<open>The difference \<open>a - b\<close> of two floats.\<close>

fun np_subtract :: "float64 \<Rightarrow> float64 \<Rightarrow> float64" where
  "np_subtract NaN _ = NaN"
| "np_subtract _ NaN = NaN"
| "np_subtract (Finite a) (Finite b) = f64_round (a - b)"
| "np_subtract (Finite a) PInf = NInf"
| "np_subtract (Finite a) NInf = PInf"
| "np_subtract PInf PInf = NaN"
| "np_subtract PInf _ = PInf"
| "np_subtract NInf NInf = NaN"
| "np_subtract NInf _ = NInf"

text \<open>
  The quotient \<open>a / b\<close> of two floats, as numpy computes it: a zero divisor gives an
  infinity or not-a-number (with a warning), never an exception.
\<close>

fun np_divide :: "float64 \<Rightarrow> float64 \<Rightarrow> float64" where
  "np_divide NaN _ = NaN"
| "np_divide _ NaN = NaN"
| "np_divide (Finite a) (Finite b) =
     (if b \<noteq> 0 then f64_round (a / b)
      else if 0 < a then PInf
      else if a < 0 then NInf
      else NaN)"
| "np_divide (Finite a) _ = Finite 0"
| "np_divide PInf (Finite b) = (if 0 \<le> b then PInf else NInf)"
| "np_divide NInf (Finite b) = (if 0 \<le> b then NInf else PInf)"
| "np_divide _ _ = NaN"

fun np_abs :: "float64 \<Rightarrow> float64" where
  "np_abs (Finite x) = Finite \<bar>x\<bar>"
| "np_abs PInf = PInf"
| "np_abs NInf = PInf"
| "np_abs NaN = NaN"

text \<open>The comparison \<open>a <= b\<close> of floats: false whenever an operand is not-a-number.\<close>

fun np_le :: "float64 \<Rightarrow> float64 \<Rightarrow> bool" where
  "np_le NaN _ = False"
| "np_le _ NaN = False"
| "np_le NInf _ = True"
| "np_le _ PInf = True"
| "np_le (Finite x) (Finite y) = (x \<le> y)"
| "np_le _ _ = False"

text \<open>The comparison \<open>a < b\<close> of floats.\<close>

definition np_less :: "float64 \<Rightarrow> float64 \<Rightarrow> bool" where
  "np_less a b = (np_le a b \<and> a \<noteq> b)"

text \<open>
  The operator \<open>/\<close> depends on the run-time type of its operands: on Python's own floats
  a zero divisor raises ZeroDivisionError, on numpy float64 scalars (what \<open>Series.iloc\<close>
  returns, hence what the search stores in a candidate) it does not. Apart from that the
  two agree. \<open>PyNumber\<close> stands for Python's float; a Python int behaves in the same way
  as long as it and the differences taken are exactly representable in float64.
\<close>

datatype numkind = PyNumber | NpFloat64

definition truediv :: "numkind \<Rightarrow> float64 \<Rightarrow> float64 \<Rightarrow> error + float64" where
  "truediv k a b =
     (case k of
        PyNumber \<Rightarrow> (if b = Finite 0 then Inl ZeroDivisionError else Inr (np_divide a b))
      | NpFloat64 \<Rightarrow> Inr (np_divide a b))"

section \<open>Candidates\<close>

text \<open>One leg of a candidate, and the three-leg candidate (the dictionaries of the source).\<close>

record segment =
  price_range :: "price \<times> price"
  start_date :: timestamp
  end_date :: timestamp
  duration :: int

record candidate =
  Wave_1 :: segment
  Wave_2 :: segment
  Wave_3 :: segment

section \<open>Swing detection\<close>

text \<open>
  \<open>prices.shift(1)\<close> moves every value one position down and \<open>prices.shift(-1)\<close> one
  position up; the vacated position holds a missing value (\<open>None\<close> here), and every
  comparison with a missing value is false.
\<close>

definition shift_down :: "price list \<Rightarrow> price option list" where
  "shift_down ps = (if ps = [] then [] else None # map Some (butlast ps))"

definition shift_up :: "price list \<Rightarrow> price option list" where
  "shift_up ps = (if ps = [] then [] else map Some (tl ps) @ [None])"

fun gt_missing :: "price \<Rightarrow> price option \<Rightarrow> bool" where
  "gt_missing p None = False"
| "gt_missing p (Some q) = (q < p)"

fun lt_missing :: "price \<Rightarrow> price option \<Rightarrow> bool" where
  "lt_missing p None = False"
| "lt_missing p (Some q) = (p < q)"

text \<open>The boolean masks \<open>swing_highs\<close> and \<open>swing_lows\<close> of the source.\<close>

definition swing_highs_mask :: "price list \<Rightarrow> bool list" where
  "swing_highs_mask ps =
     map2 (\<and>) (map2 gt_missing ps (shift_down ps)) (map2 gt_missing ps (shift_up ps))"

definition swing_lows_mask :: "price list \<Rightarrow> bool list" where
  "swing_lows_mask ps =
     map2 (\<and>) (map2 lt_missing ps (shift_down ps)) (map2 lt_missing ps (shift_up ps))"

text \<open>\<open>prices[mask]\<close>: the rows whose mask entry is true, in their order.\<close>

definition select_mask :: "series \<Rightarrow> bool list \<Rightarrow> series" where
  "select_mask s m = map fst (filter snd (zip s m))"

text \<open>
  \<open>sort_index()\<close>: the rows ordered by index label. Rows with equal labels, for which
  pandas promises no order, keep their relative order here; with unique labels the result
  is determined.
\<close>

definition sort_index :: "series \<Rightarrow> series" where
  "sort_index s = sort_key fst s"

text \<open>
  \<open>_detect_swings\<close>, in its second definition, which is the one that the class keeps.
\<close>

definition detect_swings :: "series \<Rightarrow> series \<times> series" where
  "detect_swings prices =
     (let swing_highs = select_mask prices (swing_highs_mask (map snd prices));
          swing_lows = select_mask prices (swing_lows_mask (map snd prices))
      in (sort_index swing_highs, sort_index swing_lows))"

section \<open>The specification of a swing\<close>

text \<open>
  The specification's wording, by position: the row at position \<open>i\<close> is a swing high
  when \<open>1 \<le> i \<le> n - 2\<close> and its price is strictly greater than the prices of both
  neighbours, a swing low when it is strictly less than both. These two predicates are
  not taken from the source; the source computes the masks above.
\<close>

definition spec_swing_high :: "series \<Rightarrow> nat \<Rightarrow> bool" where
  "spec_swing_high s i =
     (1 \<le> i \<and> i + 2 \<le> length s \<and> snd (s ! (i - 1)) < snd (s ! i)
      \<and> snd (s ! (i + 1)) < snd (s ! i))"

definition spec_swing_low :: "series \<Rightarrow> nat \<Rightarrow> bool" where
  "spec_swing_low s i =
     (1 \<le> i \<and> i + 2 \<le> length s \<and> snd (s ! i) < snd (s ! (i - 1))
      \<and> snd (s ! i) < snd (s ! (i + 1)))"

section \<open>Classification\<close>

text \<open>
  \<open>wave_points\<close> is \<open>None\<close> when the mapping is absent or empty (\<open>not wave_points\<close>
  holds for both). The first argument is the run-time type of the prices stored in the
  mapping. \<open>wave_length\<close> is \<open>abs(wave[1] - wave[0])\<close>.
\<close>

definition wave_length :: "price \<times> price \<Rightarrow> float64" where
  "wave_length r = np_abs (np_subtract (Finite (snd r)) (Finite (fst r)))"

definition classify_pattern :: "numkind \<Rightarrow> candidate option \<Rightarrow> error + string" where
  "classify_pattern k wave_points =
     (case wave_points of
        None \<Rightarrow> Inr ''Insufficient Data''
      | Some wp \<Rightarrow>
          (let wave_1 = price_range (Wave_1 wp);
               wave_2 = price_range (Wave_2 wp);
               wave_3 = price_range (Wave_3 wp);
               wave_1_length = wave_length wave_1;
               wave_2_length = wave_length wave_2;
               wave_3_length = wave_length wave_3
           in case truediv k wave_2_length wave_1_length of
                Inl e \<Rightarrow> Inl e
              | Inr wave_2_retracement \<Rightarrow>
                  (let is_impulsive =
                         (np_le (f64_round (382 / 1000)) wave_2_retracement
                          \<and> np_le wave_2_retracement (f64_round (618 / 1000))
                          \<and> np_less wave_1_length wave_3_length)
                   in Inr (if is_impulsive then ''Impulsive'' else ''Corrective''))))"

section \<open>Wave search\<close>

text \<open>
  The row at position \<open>k\<close> of a series: its label \<open>s.index[k]\<close> and its value
  \<open>s.iloc[k]\<close>. Out of range both raise IndexError.
\<close>

definition iloc :: "series \<Rightarrow> nat \<Rightarrow> error + (timestamp \<times> price)" where
  "iloc s k = (if k < length s then Inr (s ! k) else Inl IndexError)"

text \<open>The dictionary appended to \<open>wave_points\<close>, from the four rows it is built of.\<close>

definition wave_dict ::
  "timestamp \<times> price \<Rightarrow> timestamp \<times> price \<Rightarrow> timestamp \<times> price \<Rightarrow> timestamp \<times> price
   \<Rightarrow> candidate" where
  "wave_dict low1 high1 low2 high2 =
     \<lparr>Wave_1 = \<lparr>price_range = (snd low1, snd high1),
                start_date = fst low1,
                end_date = fst high1,
                duration = fst high1 - fst low1\<rparr>,
      Wave_2 = \<lparr>price_range = (snd high1, snd low2),
                start_date = fst high1,
                end_date = fst low2,
                duration = fst low2 - fst high1\<rparr>,
      Wave_3 = \<lparr>price_range = (snd low2, snd high2),
                start_date = fst low2,
                end_date = fst high2,
                duration = fst high2 - fst low2\<rparr>\<rparr>"

text \<open>
  The body of the inner loop, for one pair \<open>(i, j)\<close>. The three reads come first, as
  in the source, so an out-of-range \<open>j\<close> raises before any gate is evaluated. The
  prices are numpy float64 scalars: the division by \<open>wave_1_length\<close> never raises.
\<close>

definition wave_body ::
  "series \<Rightarrow> series \<Rightarrow> nat \<Rightarrow> nat \<Rightarrow> candidate list \<Rightarrow> error + candidate list" where
  "wave_body swing_lows swing_highs i j wave_points =
     (case iloc swing_lows i of
        Inl e \<Rightarrow> Inl e
      | Inr low1 \<Rightarrow>
         (case iloc swing_highs (j - 1) of
            Inl e \<Rightarrow> Inl e
          | Inr high1 \<Rightarrow>
             (case iloc swing_lows j of
                Inl e \<Rightarrow> Inl e
              | Inr low2 \<Rightarrow>
                 (if fst low1 < fst high1 \<and> fst high1 < fst low2 then
                    (let wave_1_length = np_subtract (Finite (snd high1)) (Finite (snd low1));
                         wave_2_retracement =
                           np_abs (np_divide
                                     (np_subtract (Finite (snd low2)) (Finite (snd high1)))
                                     wave_1_length)
                     in if j < length swing_highs then
                          (case iloc swing_highs j of
                             Inl e \<Rightarrow> Inl e
                           | Inr high2 \<Rightarrow>
                              (if np_le (Finite (1 / 2)) wave_2_retracement
                                  \<and> np_le wave_2_retracement (f64_round (618 / 1000))
                               then Inr (wave_points @ [wave_dict low1 high1 low2 high2])
                               else Inr wave_points))
                        else Inr wave_points)
                  else Inr wave_points))))"

text \<open>The two loops; an exception leaves both.\<close>

fun inner_loop ::
  "series \<Rightarrow> series \<Rightarrow> nat \<Rightarrow> nat list \<Rightarrow> candidate list \<Rightarrow> error + candidate list" where
  "inner_loop swing_lows swing_highs i [] wave_points = Inr wave_points"
| "inner_loop swing_lows swing_highs i (j # js) wave_points =
     (case wave_body swing_lows swing_highs i j wave_points of
        Inl e \<Rightarrow> Inl e
      | Inr wave_points' \<Rightarrow> inner_loop swing_lows swing_highs i js wave_points')"

fun outer_loop ::
  "series \<Rightarrow> series \<Rightarrow> nat list \<Rightarrow> candidate list \<Rightarrow> error + candidate list" where
  "outer_loop swing_lows swing_highs [] wave_points = Inr wave_points"
| "outer_loop swing_lows swing_highs (i # is) wave_points =
     (case inner_loop swing_lows swing_highs i [i + 1 ..< length swing_highs] wave_points of
        Inl e \<Rightarrow> Inl e
      | Inr wave_points' \<Rightarrow> outer_loop swing_lows swing_highs is wave_points')"

text \<open>
  The search of \<open>identify_wave\<close>: \<open>range(len(swing_lows) - 1)\<close> is empty when there is
  no swing low, as the truncating subtraction on naturals gives.
\<close>

definition wave_search :: "series \<Rightarrow> series \<Rightarrow> error + candidate list" where
  "wave_search swing_lows swing_highs =
     outer_loop swing_lows swing_highs [0 ..< length swing_lows - 1] []"

text \<open>
  What the body appends to \<open>wave_points\<close> for the pair \<open>(i, j)\<close>: nothing or one
  dictionary (nothing too when the body raises).
\<close>

definition emitted :: "series \<Rightarrow> series \<Rightarrow> nat \<Rightarrow> nat \<Rightarrow> candidate list" where
  "emitted swing_lows swing_highs i j =
     (case wave_body swing_lows swing_highs i j [] of Inl e \<Rightarrow> [] | Inr xs \<Rightarrow> xs)"

section \<open>The analysis\<close>

text \<open>What \<open>identify_wave\<close> prints, as events.\<close>

datatype event =
    NoValidPatterns
  | LatestWave candidate
  | PatternClassification string
  | ErrorReport error

text \<open>
  \<open>identify_wave\<close> on the series \<open>self.data['Close']\<close>: the returned value (\<open>None\<close> or
  the latest candidate) and the printed events. The \<open>except Exception\<close> clause turns
  every exception of the body into a report and the value \<open>None\<close>.
\<close>

definition identify_wave :: "series \<Rightarrow> candidate option \<times> event list" where
  "identify_wave prices =
     (let (swing_highs, swing_lows) = detect_swings prices
      in case wave_search swing_lows swing_highs of
           Inl e \<Rightarrow> (None, [ErrorReport e])
         | Inr wave_points \<Rightarrow>
             if wave_points = [] then (None, [NoValidPatterns])
             else
               (let latest_wave = last wave_points
                in case classify_pattern NpFloat64 (Some latest_wave) of
                     Inl e \<Rightarrow> (None, [LatestWave latest_wave, ErrorReport e])
                   | Inr pattern_type \<Rightarrow>
                       (Some latest_wave,
                        [LatestWave latest_wave, PatternClassification pattern_type])))"

section \<open>Concrete inputs\<close>

text \<open>Wave 1 from 100 to 200, Wave 2 back to 150, Wave 3 of length 50 only.\<close>

definition short_wave_3 :: candidate where
  "short_wave_3 =
     \<lparr>Wave_1 = \<lparr>price_range = (100, 200), start_date = 0, end_date = 1, duration = 1\<rparr>,
      Wave_2 = \<lparr>price_range = (200, 150), start_date = 1, end_date = 2, duration = 1\<rparr>,
      Wave_3 = \<lparr>price_range = (150, 200), start_date = 2, end_date = 3, duration = 1\<rparr>\<rparr>"

text \<open>A candidate whose Wave 1 starts and ends at the price 100.\<close>

definition flat_wave :: candidate where
  "flat_wave =
     \<lparr>Wave_1 = \<lparr>price_range = (100, 100), start_date = 0, end_date = 1, duration = 1\<rparr>,
      Wave_2 = \<lparr>price_range = (100, 90), start_date = 1, end_date = 2, duration = 1\<rparr>,
      Wave_3 = \<lparr>price_range = (90, 120), start_date = 2, end_date = 3, duration = 1\<rparr>\<rparr>"

text \<open>A low, a high, a flat stretch, a second high and only then the second low.\<close>

definition plateau_series :: series where
  "plateau_series = [(0, 11), (1, 10), (2, 20), (3, 17), (4, 17), (5, 18), (6, 15), (7, 16)]"

text \<open>Seven closes with three swing highs and two swing lows.\<close>

definition three_highs_series :: series where
  "three_highs_series = [(0, 1), (1, 3), (2, 2), (3, 4), (4, 1), (5, 5), (6, 4)]"

text \<open>Six closes: low 10, high 20, low 15, high 30.\<close>

definition impulse_series :: series where
  "impulse_series = [(0, 11), (1, 10), (2, 20), (3, 15), (4, 30), (5, 25)]"

text \<open>Strictly rising closes: no swing.\<close>

definition rising_series :: series where
  "rising_series = [(0, 1), (1, 2), (2, 3), (3, 4)]"

text \<open>
  Nine closes with four swing highs and three swing lows, the lows at 10, 14 and 15.
\<close>

definition four_highs_series :: series where
  "four_highs_series =
     [(0, 11), (1, 12), (2, 10), (3, 20), (4, 14), (5, 16), (6, 15), (7, 30), (8, 25)]"

text \<open>
  The float64 value that a decimal literal denotes, as a price. The two candidates and
  the two series below have prices with two decimals, none of them a binary fraction.
\<close>

definition float_literal :: "rat \<Rightarrow> price" where
  "float_literal x = (case f64_round x of Finite y \<Rightarrow> y | _ \<Rightarrow> 0)"

definition decimal_wave_a :: candidate where
  "decimal_wave_a =
     wave_dict (1, float_literal (9555 / 100)) (2, float_literal (13055 / 100))
               (3, float_literal (10892 / 100)) (4, float_literal (21392 / 100))"

definition decimal_wave_b :: candidate where
  "decimal_wave_b =
     wave_dict (1, float_literal (228 / 100)) (2, float_literal (3728 / 100))
               (3, float_literal (1565 / 100)) (4, float_literal (12065 / 100))"

definition decimal_series_a :: series where
  "decimal_series_a =
     [(0, float_literal (9655 / 100)), (1, float_literal (9555 / 100)),
      (2, float_literal (13055 / 100)), (3, float_literal (10892 / 100)),
      (4, float_literal (21392 / 100)), (5, float_literal (21292 / 100))]"

definition decimal_series_b :: series where
  "decimal_series_b =
     [(0, float_literal (328 / 100)), (1, float_literal (228 / 100)),
      (2, float_literal (3728 / 100)), (3, float_literal (1565 / 100)),
      (4, float_literal (12065 / 100)), (5, float_literal (11965 / 100))]"

section \<open>Swing detection: properties\<close>

lemma length_shift_down: "length (shift_down ps) = length ps"
  by (cases ps) (simp_all add: shift_down_def)

lemma length_shift_up: "length (shift_up ps) = length ps"
  by (cases ps) (simp_all add: shift_up_def)

lemma nth_shift_down:
  "i < length ps \<Longrightarrow> shift_down ps ! i = (if i = 0 then None else Some (ps ! (i - 1)))"
  by (cases i) (auto simp: shift_down_def nth_butlast)

lemma nth_shift_up:
  "i < length ps
   \<Longrightarrow> shift_up ps ! i = (if Suc i < length ps then Some (ps ! Suc i) else None)"
  by (cases ps) (auto simp: shift_up_def nth_append nth_tl less_Suc_eq)

lemma length_swing_highs_mask: "length (swing_highs_mask ps) = length ps"
  by (simp add: swing_highs_mask_def length_shift_down length_shift_up)

lemma length_swing_lows_mask: "length (swing_lows_mask ps) = length ps"
  by (simp add: swing_lows_mask_def length_shift_down length_shift_up)

lemma nth_swing_highs_mask:
  assumes "i < length ps"
  shows "swing_highs_mask ps ! i
         = (1 \<le> i \<and> i + 2 \<le> length ps \<and> ps ! (i - 1) < ps ! i \<and> ps ! (i + 1) < ps ! i)"
  using assms
  by (auto simp: swing_highs_mask_def length_shift_down length_shift_up
        nth_shift_down nth_shift_up)

lemma nth_swing_lows_mask:
  assumes "i < length ps"
  shows "swing_lows_mask ps ! i
         = (1 \<le> i \<and> i + 2 \<le> length ps \<and> ps ! i < ps ! (i - 1) \<and> ps ! i < ps ! (i + 1))"
  using assms
  by (auto simp: swing_lows_mask_def length_shift_down length_shift_up
        nth_shift_down nth_shift_up)

lemma zip_positions:
  assumes "length m = length s"
  shows "zip s m = map (\<lambda>i. (s ! i, m ! i)) [0 ..< length s]"
  using assms by (intro nth_equalityI) simp_all

lemma select_mask_positions:
  assumes "length m = length s"
  shows "select_mask s m = map ((!) s) (filter ((!) m) [0 ..< length s])"
  by (simp add: select_mask_def zip_positions [OF assms] filter_map comp_def)

lemma filter_cong_upt:
  assumes "\<And>i. i < n \<Longrightarrow> P i = Q i"
  shows "filter P [0 ..< n] = filter Q [0 ..< n]"
  using assms by (intro filter_cong) auto

lemma select_highs:
  "select_mask s (swing_highs_mask (map snd s))
     = map ((!) s) (filter (spec_swing_high s) [0 ..< length s])"
proof -
  have "filter ((!) (swing_highs_mask (map snd s))) [0 ..< length s]
        = filter (spec_swing_high s) [0 ..< length s]"
    by (rule filter_cong_upt) (auto simp: nth_swing_highs_mask spec_swing_high_def)
  then show ?thesis
    by (simp add: select_mask_positions length_swing_highs_mask)
qed

lemma select_lows:
  "select_mask s (swing_lows_mask (map snd s))
     = map ((!) s) (filter (spec_swing_low s) [0 ..< length s])"
proof -
  have "filter ((!) (swing_lows_mask (map snd s))) [0 ..< length s]
        = filter (spec_swing_low s) [0 ..< length s]"
    by (rule filter_cong_upt) (auto simp: nth_swing_lows_mask spec_swing_low_def)
  then show ?thesis
    by (simp add: select_mask_positions length_swing_lows_mask)
qed

lemma detect_swings_positions:
  "detect_swings s
     = (sort_index (map ((!) s) (filter (spec_swing_high s) [0 ..< length s])),
        sort_index (map ((!) s) (filter (spec_swing_low s) [0 ..< length s])))"
  by (simp add: detect_swings_def Let_def select_highs select_lows)

lemma set_sort_index: "set (sort_index xs) = set xs"
  by (simp add: sort_index_def)

lemma member_positions:
  assumes d: "distinct (map fst s)" and i: "i < length s"
  shows "(s ! i \<in> set (map ((!) s) (filter P [0 ..< length s]))) = P i"
proof -
  from d have ds: "distinct s" by (simp add: distinct_map)
  show ?thesis
  proof
    assume "s ! i \<in> set (map ((!) s) (filter P [0 ..< length s]))"
    then obtain k where k: "k < length s" "P k" "s ! k = s ! i" by auto
    with ds i have "k = i" by (simp add: nth_eq_iff_index_eq)
    with k show "P i" by simp
  next
    assume "P i"
    with i show "s ! i \<in> set (map ((!) s) (filter P [0 ..< length s]))" by auto
  qed
qed

lemma short_no_swing:
  assumes "length s < 3"
  shows "filter (spec_swing_high s) [0 ..< length s] = []"
    and "filter (spec_swing_low s) [0 ..< length s] = []"
  using assms by (auto simp: filter_empty_conv spec_swing_high_def spec_swing_low_def)

text \<open>
  Claim C4. The swing highs (lows) returned by \<open>detect_swings\<close> are the rows at
  exactly the positions \<open>i\<close> with \<open>1 \<le> i \<le> n - 2\<close> whose price is strictly greater
  (less) than both neighbours' prices, ordered by timestamp; the first and the last
  position never qualify; when the timestamps are unique, a row of the series is among
  the highs (lows) exactly when its position qualifies; and a series of fewer than three
  rows gives two empty sequences.
\<close>

theorem detect_swings_classifies:
  "fst (detect_swings s)
     = sort_index (map ((!) s) (filter (spec_swing_high s) [0 ..< length s]))
   \<and> snd (detect_swings s)
     = sort_index (map ((!) s) (filter (spec_swing_low s) [0 ..< length s]))
   \<and> \<not> spec_swing_high s 0 \<and> \<not> spec_swing_low s 0
   \<and> \<not> spec_swing_high s (length s - 1) \<and> \<not> spec_swing_low s (length s - 1)
   \<and> (distinct (map fst s) \<longrightarrow>
        (\<forall>i<length s. (s ! i \<in> set (fst (detect_swings s))) = spec_swing_high s i)
        \<and> (\<forall>i<length s. (s ! i \<in> set (snd (detect_swings s))) = spec_swing_low s i))
   \<and> (length s < 3 \<longrightarrow> detect_swings s = ([], []))"
proof (intro conjI impI allI)
  show "fst (detect_swings s)
     = sort_index (map ((!) s) (filter (spec_swing_high s) [0 ..< length s]))"
    by (simp add: detect_swings_positions)
  show "snd (detect_swings s)
     = sort_index (map ((!) s) (filter (spec_swing_low s) [0 ..< length s]))"
    by (simp add: detect_swings_positions)
  show "\<not> spec_swing_high s 0" by (simp add: spec_swing_high_def)
  show "\<not> spec_swing_low s 0" by (simp add: spec_swing_low_def)
  show "\<not> spec_swing_high s (length s - 1)" by (simp add: spec_swing_high_def)
  show "\<not> spec_swing_low s (length s - 1)" by (simp add: spec_swing_low_def)
next
  fix i
  assume "distinct (map fst s)" and "i < length s"
  then show "(s ! i \<in> set (fst (detect_swings s))) = spec_swing_high s i"
    by (simp only: detect_swings_positions fst_conv set_sort_index member_positions)
next
  fix i
  assume "distinct (map fst s)" and "i < length s"
  then show "(s ! i \<in> set (snd (detect_swings s))) = spec_swing_low s i"
    by (simp only: detect_swings_positions snd_conv set_sort_index member_positions)
next
  assume "length s < 3"
  then show "detect_swings s = ([], [])"
    by (simp add: detect_swings_positions short_no_swing sort_index_def)
qed

theorem detect_swings_classifies_witness:
  "distinct (map fst three_highs_series) \<and> 1 < length three_highs_series
   \<and> spec_swing_high three_highs_series 1
   \<and> three_highs_series ! 1 \<in> set (fst (detect_swings three_highs_series))
   \<and> length [(0, 5), (1, 7) :: timestamp \<times> price] < 3
   \<and> detect_swings [(0, 5), (1, 7)] = ([], [])"
proof -
  have d: "distinct (map fst three_highs_series)"
    by (simp add: three_highs_series_def)
  have l: "1 < length three_highs_series"
    by (simp add: three_highs_series_def)
  have h: "spec_swing_high three_highs_series 1"
    by (simp add: three_highs_series_def spec_swing_high_def)
  from detect_swings_classifies [of three_highs_series] d l h
  have m: "three_highs_series ! 1 \<in> set (fst (detect_swings three_highs_series))"
    by blast
  have s: "length [(0, 5), (1, 7) :: timestamp \<times> price] < 3"
    by simp
  from detect_swings_classifies [of "[(0, 5), (1, 7)]"] s
  have "detect_swings [(0, 5), (1, 7)] = ([], [])"
    by blast
  with d l h m s show ?thesis by blast
qed

lemma sort_index_sorted:
  "sorted_wrt (<) (map fst xs) \<Longrightarrow> sort_index xs = xs"
  by (simp add: sort_index_def sort_key_id_if_sorted strict_sorted_imp_sorted)

lemma positions_sorted:
  assumes "sorted_wrt (<) (map fst s)"
  shows "sorted_wrt (<) (map fst (map ((!) s) (filter P [0 ..< length s])))"
proof -
  have "sorted_wrt (<) (filter P [0 ..< length s])"
    by (rule sorted_wrt_filter) simp
  moreover have "\<And>i j. i < j \<Longrightarrow> j < length s \<Longrightarrow> fst (s ! i) < fst (s ! j)"
    using assms by (simp add: sorted_wrt_iff_nth_less)
  ultimately show ?thesis
    by (simp add: sorted_wrt_map comp_def)
       (erule sorted_wrt_mono_rel [rotated], auto)
qed

text \<open>
  Claim C7. For a series with strictly increasing timestamps, no timestamp occurs both
  among the swing highs and among the swing lows, and each of the two outputs is strictly
  increasing in timestamp.
\<close>

theorem detect_swings_disjoint_sorted:
  assumes "sorted_wrt (<) (map fst s)"
  shows "fst ` set (fst (detect_swings s)) \<inter> fst ` set (snd (detect_swings s)) = {}
         \<and> sorted_wrt (<) (map fst (fst (detect_swings s)))
         \<and> sorted_wrt (<) (map fst (snd (detect_swings s)))"
proof -
  let ?hs = "map ((!) s) (filter (spec_swing_high s) [0 ..< length s])"
  let ?ls = "map ((!) s) (filter (spec_swing_low s) [0 ..< length s])"
  have sh: "sorted_wrt (<) (map fst ?hs)" and sl: "sorted_wrt (<) (map fst ?ls)"
    using assms by (rule positions_sorted)+
  have ds: "detect_swings s = (?hs, ?ls)"
    by (simp add: detect_swings_positions sort_index_sorted [OF sh] sort_index_sorted [OF sl])
  from assms have d: "distinct (map fst s)" by (simp add: strict_sorted_iff)
  have "fst ` set ?hs \<inter> fst ` set ?ls = {}"
  proof (rule ccontr)
    assume "fst ` set ?hs \<inter> fst ` set ?ls \<noteq> {}"
    then obtain i k where i: "i < length s" "spec_swing_high s i"
      and k: "k < length s" "spec_swing_low s k" and e: "fst (s ! i) = fst (s ! k)"
      by auto
    from d i(1) k(1) e have "i = k"
      by (metis length_map nth_eq_iff_index_eq nth_map)
    with i k show False by (auto simp: spec_swing_high_def spec_swing_low_def)
  qed
  with sh sl ds show ?thesis by simp
qed

theorem detect_swings_disjoint_sorted_witness:
  "sorted_wrt (<) (map fst three_highs_series)
   \<and> fst ` set (fst (detect_swings three_highs_series))
       \<inter> fst ` set (snd (detect_swings three_highs_series)) = {}
   \<and> sorted_wrt (<) (map fst (fst (detect_swings three_highs_series)))
   \<and> sorted_wrt (<) (map fst (snd (detect_swings three_highs_series)))"
  using detect_swings_disjoint_sorted [of three_highs_series]
  by (simp add: three_highs_series_def)

section \<open>Float64 arithmetic: properties\<close>

lemma f64_round_0: "f64_round 0 = Finite 0"
  by (simp add: f64_round_def)

lemma f64_382: "f64_round (382 / 1000) = Finite (3440750115311059 / 9007199254740992)"
  by code_simp

lemma f64_618: "f64_round (618 / 1000) = Finite (5566449139429933 / 9007199254740992)"
  by code_simp

lemma f64_382_n: "f64_round (191 / 500) = Finite (3440750115311059 / 9007199254740992)"
  using f64_382 by simp

lemma f64_618_n: "f64_round (309 / 500) = Finite (5566449139429933 / 9007199254740992)"
  using f64_618 by simp

lemmas f64_literals = f64_382 f64_618 f64_382_n f64_618_n

lemma np_subtract_same: "np_subtract (Finite x) (Finite x) = Finite 0"
  by (simp add: f64_round_0)

lemma np_divide_zero:
  "np_divide a (Finite 0) = PInf \<or> np_divide a (Finite 0) = NInf
   \<or> np_divide a (Finite 0) = NaN"
  by (cases a) auto

lemma np_abs_zero: "np_abs d = Finite 0 \<Longrightarrow> d = Finite 0"
  by (cases d) auto

text \<open>
  A quotient whose absolute value lies between a positive bound and a finite one has a
  finite, nonzero divisor.
\<close>

lemma gate_divisor:
  assumes "np_le (Finite lo) (np_abs (np_divide n d))"
    and "np_le (np_abs (np_divide n d)) (Finite hi)"
    and "0 < lo"
  shows "\<exists>w. d = Finite w \<and> w \<noteq> 0"
proof (cases d)
  case (Finite w)
  show ?thesis
  proof (cases "w = 0")
    case True
    with Finite np_divide_zero [of n] assms(1,2) show ?thesis by auto
  next
    case False
    with Finite show ?thesis by simp
  qed
next
  case PInf
  with assms show ?thesis by (cases n) auto
next
  case NInf
  with assms show ?thesis by (cases n) auto
next
  case NaN
  with assms show ?thesis by (cases n) auto
qed

subsection \<open>Powers of two and the binary exponent\<close>














subsection \<open>Rounding to an integer\<close>




subsection \<open>The grid of the float64 values\<close>


lemma pow2_0: "pow2 0 = 1"
  by (simp add: pow2_def)
















section \<open>Classification: properties\<close>

lemma wave_length_flat: "fst r = snd r \<Longrightarrow> wave_length r = Finite 0"
  by (simp add: wave_length_def f64_round_0)

lemma truediv_nonzero: "b \<noteq> Finite 0 \<Longrightarrow> truediv k a b = Inr (np_divide a b)"
  by (cases k) (simp_all add: truediv_def)

lemma classify_pattern_np: "\<exists>label. classify_pattern NpFloat64 wp = Inr label"
  by (cases wp) (simp_all add: classify_pattern_def truediv_def Let_def)

lemma classify_pattern_nonzero:
  assumes "wave_length (price_range (Wave_1 c)) \<noteq> Finite 0"
  shows "classify_pattern k (Some c) =
          Inr (if np_le (f64_round (382 / 1000))
                    (np_divide (wave_length (price_range (Wave_2 c)))
                               (wave_length (price_range (Wave_1 c))))
                  \<and> np_le (np_divide (wave_length (price_range (Wave_2 c)))
                                     (wave_length (price_range (Wave_1 c))))
                          (f64_round (618 / 1000))
                  \<and> np_less (wave_length (price_range (Wave_1 c)))
                            (wave_length (price_range (Wave_3 c)))
               then ''Impulsive'' else ''Corrective'')"
  using assms by (simp add: classify_pattern_def Let_def truediv_nonzero)

lemma classify_pattern_flat_py:
  assumes "fst (price_range (Wave_1 c)) = snd (price_range (Wave_1 c))"
  shows "classify_pattern PyNumber (Some c) = Inl ZeroDivisionError"
  using assms by (simp add: classify_pattern_def truediv_def Let_def wave_length_flat)

lemma classify_pattern_flat_np:
  assumes "fst (price_range (Wave_1 c)) = snd (price_range (Wave_1 c))"
  shows "classify_pattern NpFloat64 (Some c) = Inr ''Corrective''"
proof -
  let ?q = "np_divide (wave_length (price_range (Wave_2 c))) (Finite 0)"
  have "\<not> (np_le (f64_round (382 / 1000)) ?q \<and> np_le ?q (f64_round (618 / 1000)))"
    using np_divide_zero [of "wave_length (price_range (Wave_2 c))"]
    by (auto simp: f64_literals)
  with assms show ?thesis
    by (auto simp: classify_pattern_def truediv_def Let_def wave_length_flat)
qed


lemma f64_int_values:
  "f64_round 100 = Finite 100" "f64_round (- 50) = Finite (- 50)"
  "f64_round 250 = Finite 250" "f64_round 50 = Finite 50"
  "f64_round (1 / 2) = Finite (1 / 2)"
  by code_simp+





text \<open>
  Claim C9, as stated, fails: on a Wave 1 of zero length the division raises the
  interpreter's ZeroDivisionError when the prices are Python numbers, and raises nothing
  and labels the candidate "Corrective" when they are numpy float64 scalars.
\<close>

theorem classify_zero_length_counterexample:
  "classify_pattern PyNumber (Some flat_wave) = Inl ZeroDivisionError
   \<and> classify_pattern NpFloat64 (Some flat_wave) = Inr ''Corrective''"
  by (simp add: classify_pattern_flat_py classify_pattern_flat_np flat_wave_def)

text \<open>
  Claim C9, amended. For every candidate whose Wave 1 has a zero price range,
  \<open>classify_pattern\<close> raises the built-in ZeroDivisionError of the division (no error
  type of its own) when the prices are Python numbers, and returns the label "Corrective"
  when they are numpy float64 scalars, as in the candidates that the search builds.
\<close>

theorem classify_zero_length:
  assumes "fst (price_range (Wave_1 c)) = snd (price_range (Wave_1 c))"
  shows "classify_pattern PyNumber (Some c) = Inl ZeroDivisionError
         \<and> classify_pattern NpFloat64 (Some c) = Inr ''Corrective''"
  using assms by (simp add: classify_pattern_flat_py classify_pattern_flat_np)

theorem classify_zero_length_witness:
  "fst (price_range (Wave_1 (short_wave_3\<lparr>Wave_1 := Wave_1 flat_wave\<rparr>)))
     = snd (price_range (Wave_1 (short_wave_3\<lparr>Wave_1 := Wave_1 flat_wave\<rparr>)))
   \<and> classify_pattern PyNumber (Some (short_wave_3\<lparr>Wave_1 := Wave_1 flat_wave\<rparr>))
       = Inl ZeroDivisionError
   \<and> classify_pattern NpFloat64 (Some (short_wave_3\<lparr>Wave_1 := Wave_1 flat_wave\<rparr>))
       = Inr ''Corrective''"
  using classify_zero_length [of "short_wave_3\<lparr>Wave_1 := Wave_1 flat_wave\<rparr>"]
  by (simp add: flat_wave_def)

section \<open>Wave search: the emitted candidates\<close>

lemma wave_body_append:
  "wave_body lows highs i j wp = Inr wp' \<Longrightarrow> wp' = wp @ emitted lows highs i j"
  by (auto simp: wave_body_def emitted_def Let_def split: sum.splits if_splits)

lemma inner_loop_append:
  "inner_loop lows highs i js wp = Inr wp'
   \<Longrightarrow> wp' = wp @ concat (map (emitted lows highs i) js)"
proof (induction js arbitrary: wp)
  case Nil
  then show ?case by simp
next
  case (Cons j js)
  then obtain wp1 where b: "wave_body lows highs i j wp = Inr wp1"
    and l: "inner_loop lows highs i js wp1 = Inr wp'"
    by (auto split: sum.splits)
  from wave_body_append [OF b] Cons.IH [OF l] show ?case by simp
qed

lemma outer_loop_append:
  "outer_loop lows highs is wp = Inr wp'
   \<Longrightarrow> wp' = wp @ concat (map (\<lambda>i. concat (map (emitted lows highs i)
                                              [i + 1 ..< length highs])) is)"
proof (induction "is" arbitrary: wp)
  case Nil
  then show ?case by simp
next
  case (Cons i "is")
  then obtain wp1 where b: "inner_loop lows highs i [i + 1 ..< length highs] wp = Inr wp1"
    and l: "outer_loop lows highs is wp1 = Inr wp'"
    by (auto split: sum.splits)
  from inner_loop_append [OF b] Cons.IH [OF l] show ?case by simp
qed

lemma wave_search_order:
  "wave_search lows highs = Inr wps
   \<Longrightarrow> wps = concat (map (\<lambda>i. concat (map (emitted lows highs i) [i + 1 ..< length highs]))
                         [0 ..< length lows - 1])"
  unfolding wave_search_def by (drule outer_loop_append) simp

lemma emitted_cases:
  assumes "c \<in> set (emitted lows highs i j)"
  shows "i < length lows \<and> j - 1 < length highs \<and> j < length lows \<and> j < length highs
         \<and> emitted lows highs i j = [c]
         \<and> c = wave_dict (lows ! i) (highs ! (j - 1)) (lows ! j) (highs ! j)
         \<and> fst (lows ! i) < fst (highs ! (j - 1)) \<and> fst (highs ! (j - 1)) < fst (lows ! j)
         \<and> np_le (Finite (1 / 2))
              (np_abs (np_divide
                 (np_subtract (Finite (snd (lows ! j))) (Finite (snd (highs ! (j - 1)))))
                 (np_subtract (Finite (snd (highs ! (j - 1)))) (Finite (snd (lows ! i))))))
         \<and> np_le (np_abs (np_divide
                    (np_subtract (Finite (snd (lows ! j))) (Finite (snd (highs ! (j - 1)))))
                    (np_subtract (Finite (snd (highs ! (j - 1)))) (Finite (snd (lows ! i))))))
                  (f64_round (618 / 1000))"
  using assms
  by (simp add: emitted_def wave_body_def iloc_def Let_def
           split: sum.splits if_splits)

lemma wave_search_emitted:
  assumes "wave_search lows highs = Inr wps" and "c \<in> set wps"
  shows "\<exists>i j. i < length lows - 1 \<and> i < j \<and> j < length highs
               \<and> c \<in> set (emitted lows highs i j)"
proof -
  from assms(2) obtain i j where "i \<in> set [0 ..< length lows - 1]"
    and "j \<in> set [i + 1 ..< length highs]" and "c \<in> set (emitted lows highs i j)"
    unfolding wave_search_order [OF assms(1)] by auto
  then show ?thesis
    by (intro exI [of _ i] exI [of _ j]) auto
qed

text \<open>
  The gate of the search, read on the prices stored in a candidate: the retracement
  computed from them is at least 0.5 and at most the float 0.618, and Wave 1 has a
  finite, nonzero computed length.
\<close>

lemma wave_search_gate:
  assumes "wave_search lows highs = Inr wps" and "c \<in> set wps"
  shows "fst (price_range (Wave_2 c)) = snd (price_range (Wave_1 c))
         \<and> np_le (Finite (1 / 2))
              (np_abs (np_divide
                 (np_subtract (Finite (snd (price_range (Wave_2 c))))
                              (Finite (snd (price_range (Wave_1 c)))))
                 (np_subtract (Finite (snd (price_range (Wave_1 c))))
                              (Finite (fst (price_range (Wave_1 c)))))))
         \<and> np_le (np_abs (np_divide
                    (np_subtract (Finite (snd (price_range (Wave_2 c))))
                                 (Finite (snd (price_range (Wave_1 c)))))
                    (np_subtract (Finite (snd (price_range (Wave_1 c))))
                                 (Finite (fst (price_range (Wave_1 c)))))))
                  (f64_round (618 / 1000))
         \<and> (\<exists>w. np_subtract (Finite (snd (price_range (Wave_1 c))))
                             (Finite (fst (price_range (Wave_1 c)))) = Finite w \<and> w \<noteq> 0)"
proof -
  from wave_search_emitted [OF assms] obtain i j
    where "c \<in> set (emitted lows highs i j)" by blast
  from emitted_cases [OF this]
  have c: "c = wave_dict (lows ! i) (highs ! (j - 1)) (lows ! j) (highs ! j)"
    and g1: "np_le (Finite (1 / 2))
              (np_abs (np_divide
                 (np_subtract (Finite (snd (lows ! j))) (Finite (snd (highs ! (j - 1)))))
                 (np_subtract (Finite (snd (highs ! (j - 1)))) (Finite (snd (lows ! i))))))"
    and g2: "np_le (np_abs (np_divide
                    (np_subtract (Finite (snd (lows ! j))) (Finite (snd (highs ! (j - 1)))))
                    (np_subtract (Finite (snd (highs ! (j - 1)))) (Finite (snd (lows ! i))))))
                  (f64_round (618 / 1000))"
    by blast+
  from g2 have g2': "np_le (np_abs (np_divide
                    (np_subtract (Finite (snd (lows ! j))) (Finite (snd (highs ! (j - 1)))))
                    (np_subtract (Finite (snd (highs ! (j - 1)))) (Finite (snd (lows ! i))))))
                  (Finite (5566449139429933 / 9007199254740992))"
    by (simp only: f64_618)
  have "\<exists>w. np_subtract (Finite (snd (highs ! (j - 1)))) (Finite (snd (lows ! i))) = Finite w
            \<and> w \<noteq> 0"
    by (rule gate_divisor [OF g1 g2']) simp
  with g1 g2 c show ?thesis
    by (simp add: wave_dict_def)
qed

lemma emitted_single:
  assumes "emitted lows highs i j \<noteq> []"
  shows "emitted lows highs i j = [last (emitted lows highs i j)]"
proof -
  from assms have "last (emitted lows highs i j) \<in> set (emitted lows highs i j)" by simp
  from emitted_cases [OF this] show ?thesis by blast
qed

lemma concat_map_last:
  assumes "concat (map f xs) \<noteq> []"
  shows "\<exists>ys x zs. xs = ys @ x # zs \<and> f x \<noteq> [] \<and> (\<forall>z\<in>set zs. f z = [])
                   \<and> last (concat (map f xs)) = last (f x)"
  using assms
proof (induction xs rule: rev_induct)
  case Nil
  then show ?case by simp
next
  case (snoc x xs)
  show ?case
  proof (cases "f x = []")
    case True
    with snoc.prems have "concat (map f xs) \<noteq> []" by simp
    from snoc.IH [OF this] obtain ys y zs where "xs = ys @ y # zs" and "f y \<noteq> []"
      and "\<forall>z\<in>set zs. f z = []" and "last (concat (map f xs)) = last (f y)"
      by blast
    with True have "xs @ [x] = ys @ y # (zs @ [x]) \<and> f y \<noteq> []
        \<and> (\<forall>z\<in>set (zs @ [x]). f z = [])
        \<and> last (concat (map f (xs @ [x]))) = last (f y)"
      by simp
    then show ?thesis by blast
  next
    case False
    then have "xs @ [x] = xs @ x # [] \<and> f x \<noteq> [] \<and> (\<forall>z\<in>set []. f z = [])
        \<and> last (concat (map f (xs @ [x]))) = last (f x)"
      by simp
    then show ?thesis by blast
  qed
qed

lemma upt_split:
  assumes "[a ..< b] = ys @ x # zs"
  shows "a \<le> x \<and> x < b \<and> (\<forall>k. a \<le> k \<and> k < b \<and> x < k \<longrightarrow> k \<in> set zs)"
proof -
  have s: "sorted_wrt (<) (ys @ x # zs)"
    using sorted_wrt_upt [of a b] assms by simp
  have m: "set [a ..< b] = set ys \<union> {x} \<union> set zs"
    using assms by simp
  from m have x: "a \<le> x \<and> x < b" by auto
  have "k \<in> set zs" if "a \<le> k" "k < b" "x < k" for k
  proof -
    from that m have "k \<in> set ys \<or> k = x \<or> k \<in> set zs" by auto
    moreover from s have "\<forall>y\<in>set ys. y < x" by (auto simp: sorted_wrt_append)
    ultimately show ?thesis using that(3) by auto
  qed
  with x show ?thesis by blast
qed

lemma wave_search_last:
  assumes ws: "wave_search lows highs = Inr wps" and ne: "wps \<noteq> []"
  shows "\<exists>i j. i < length lows - 1 \<and> i < j \<and> j < length highs
               \<and> emitted lows highs i j = [last wps]
               \<and> (\<forall>i' j'. i' < length lows - 1 \<and> i' < j' \<and> j' < length highs
                           \<and> emitted lows highs i' j' \<noteq> []
                           \<longrightarrow> i' < i \<or> (i' = i \<and> j' \<le> j))"
proof -
  define g where "g = (\<lambda>i. concat (map (emitted lows highs i) [i + 1 ..< length highs]))"
  have wps: "wps = concat (map g [0 ..< length lows - 1])"
    using wave_search_order [OF ws] by (simp add: g_def)
  with ne have "concat (map g [0 ..< length lows - 1]) \<noteq> []" by simp
  from concat_map_last [OF this] obtain ys i zs
    where o1: "[0 ..< length lows - 1] = ys @ i # zs" and o2: "g i \<noteq> []"
      and o3: "\<forall>z\<in>set zs. g z = []" and o4: "last wps = last (g i)"
    unfolding wps by blast
  from o2 have "concat (map (emitted lows highs i) [i + 1 ..< length highs]) \<noteq> []"
    by (simp add: g_def)
  from concat_map_last [OF this] obtain ys' j zs'
    where p1: "[i + 1 ..< length highs] = ys' @ j # zs'"
      and p2: "emitted lows highs i j \<noteq> []"
      and p3: "\<forall>z\<in>set zs'. emitted lows highs i z = []"
      and p4: "last (g i) = last (emitted lows highs i j)"
    unfolding g_def by blast
  from upt_split [OF o1] have i: "i < length lows - 1"
    and imax: "\<And>k. k < length lows - 1 \<Longrightarrow> i < k \<Longrightarrow> k \<in> set zs" by auto
  from upt_split [OF p1] have j: "i < j" "j < length highs"
    and jmax: "\<And>k. i < k \<Longrightarrow> k < length highs \<Longrightarrow> j < k \<Longrightarrow> k \<in> set zs'" by auto
  from emitted_single [OF p2] o4 p4
  have single: "emitted lows highs i j = [last wps]" by simp
  have "i' < i \<or> (i' = i \<and> j' \<le> j)"
    if h: "i' < length lows - 1" "i' < j'" "j' < length highs"
      "emitted lows highs i' j' \<noteq> []" for i' j'
  proof (rule ccontr)
    assume "\<not> (i' < i \<or> (i' = i \<and> j' \<le> j))"
    then consider "i < i'" | "i' = i" "j < j'" by linarith
    then show False
    proof cases
      case 1
      with imax h(1) o3 have "g i' = []" by blast
      then have "\<forall>k\<in>set [i' + 1 ..< length highs]. emitted lows highs i' k = []"
        by (simp add: g_def)
      with h(2,3) have "emitted lows highs i' j' = []" by simp
      with h(4) show False by simp
    next
      case 2
      with jmax h(2,3) p3 have "emitted lows highs i' j' = []" by blast
      with h(4) show False by simp
    qed
  qed
  with i j single show ?thesis by blast
qed

section \<open>The search and the analysis: properties\<close>

lemmas detect_swings_eval =
  detect_swings_def select_mask_def swing_highs_mask_def swing_lows_mask_def
  shift_down_def shift_up_def sort_index_def

lemma f64_values:
  "f64_round 10 = Finite 10" "f64_round (- 5) = Finite (- 5)"
  "f64_round (- (1 / 2)) = Finite (- (1 / 2))" "f64_round 5 = Finite 5"
  "f64_round 3 = Finite 3" "f64_round 15 = Finite 15" "f64_round (- 4) = Finite (- 4)"
  "f64_round 4 = Finite 4" "f64_round 24 = Finite 24"
  "f64_round (- (2 / 5)) = Finite (- (3602879701896397 / 9007199254740992))"
  "f64_round (2 / 5) = Finite (3602879701896397 / 9007199254740992)"
  by code_simp+

lemmas wave_search_eval =
  wave_search_def wave_body_def iloc_def upt_rec Let_def f64_values f64_int_values
  f64_literals

lemmas classify_eval =
  classify_pattern_def wave_length_def truediv_def np_less_def Let_def f64_values
  f64_int_values f64_literals

lemma detect_swings_plateau:
  "detect_swings plateau_series = ([(2, 20), (5, 18)], [(1, 10), (6, 15)])"
  by (simp add: plateau_series_def detect_swings_eval)

lemma detect_swings_three_highs:
  "detect_swings three_highs_series = ([(1, 3), (3, 4), (5, 5)], [(2, 2), (4, 1)])"
  by (simp add: three_highs_series_def detect_swings_eval)

lemma detect_swings_impulse:
  "detect_swings impulse_series = ([(2, 20), (4, 30)], [(1, 10), (3, 15)])"
  by (simp add: impulse_series_def detect_swings_eval)

lemma detect_swings_rising:
  "detect_swings rising_series = ([], [])"
  by (simp add: rising_series_def detect_swings_eval)

lemma wave_search_plateau:
  "wave_search [(1, 10), (6, 15)] [(2, 20), (5, 18)]
     = Inr [wave_dict (1, 10) (2, 20) (6, 15) (5, 18)]"
  by (simp add: wave_search_eval)

lemma wave_search_three_highs:
  "wave_search [(2, 2), (4, 1)] [(1, 3), (3, 4), (5, 5)] = Inl IndexError"
  by (simp add: wave_search_eval)

lemma wave_search_impulse:
  "wave_search [(1, 10), (3, 15)] [(2, 20), (4, 30)]
     = Inr [wave_dict (1, 10) (2, 20) (3, 15) (4, 30)]"
  by (simp add: wave_search_eval)

lemma wave_search_rising: "wave_search [] [] = Inr []"
  by (simp add: wave_search_eval)

text \<open>
  Claim C1: every emitted candidate has \<open>Wave_1.start_date < Wave_1.end_date <
  Wave_2.end_date < Wave_3.end_date\<close>, chained segments and non-negative durations. The
  gate of the search compares the first three dates only. On \<open>plateau_series\<close> the
  two highs (at 2 and 5) both precede the second low (at 6): the candidate returned by
  \<open>identify_wave\<close> has a Wave 3 that starts at 6 and ends at 5, with duration - 1.
\<close>

theorem plateau_wave_3_backwards:
  "\<exists>c label. identify_wave plateau_series
       = (Some c, [LatestWave c, PatternClassification label])
     \<and> start_date (Wave_1 c) = 1 \<and> end_date (Wave_1 c) = 2 \<and> end_date (Wave_2 c) = 6
     \<and> end_date (Wave_3 c) = 5 \<and> start_date (Wave_3 c) = 6 \<and> duration (Wave_3 c) = - 1"
  by (simp add: identify_wave_def detect_swings_plateau wave_search_plateau wave_dict_def
        classify_eval)

text \<open>
  What the gate does ensure, for every candidate in the list that the search returns: the
  first three dates increase strictly, the segments are chained in date and in price, and
  the durations of Wave 1 and Wave 2 are positive. The end of Wave 3 is not constrained.
\<close>

lemma search_chronology_partial:
  assumes "wave_search swing_lows swing_highs = Inr wave_points"
    and "c \<in> set wave_points"
  shows "start_date (Wave_1 c) < end_date (Wave_1 c)
         \<and> end_date (Wave_1 c) < end_date (Wave_2 c)
         \<and> start_date (Wave_2 c) = end_date (Wave_1 c)
         \<and> start_date (Wave_3 c) = end_date (Wave_2 c)
         \<and> fst (price_range (Wave_2 c)) = snd (price_range (Wave_1 c))
         \<and> fst (price_range (Wave_3 c)) = snd (price_range (Wave_2 c))
         \<and> 0 < duration (Wave_1 c) \<and> 0 < duration (Wave_2 c)
         \<and> duration (Wave_3 c) = end_date (Wave_3 c) - start_date (Wave_3 c)"
proof -
  from wave_search_emitted [OF assms] obtain i j
    where "c \<in> set (emitted swing_lows swing_highs i j)" by blast
  from emitted_cases [OF this]
  have "c = wave_dict (swing_lows ! i) (swing_highs ! (j - 1)) (swing_lows ! j)
                 (swing_highs ! j)"
    and "fst (swing_lows ! i) < fst (swing_highs ! (j - 1))"
    and "fst (swing_highs ! (j - 1)) < fst (swing_lows ! j)"
    by blast+
  then show ?thesis by (simp add: wave_dict_def)
qed

text \<open>
  Claim C2: the index \<open>j\<close> is always a valid position of the swing lows. The loop
  bounds \<open>j\<close> by the number of swing highs. On \<open>three_highs_series\<close>, with three
  highs and two lows, the pair \<open>(0, 2)\<close> reads position 2 of the two lows and the
  search ends with IndexError.
\<close>

theorem lows_read_out_of_range:
  "detect_swings three_highs_series = ([(1, 3), (3, 4), (5, 5)], [(2, 2), (4, 1)])
   \<and> iloc [(2, 2), (4, 1)] 2 = Inl IndexError
   \<and> wave_body [(2, 2), (4, 1)] [(1, 3), (3, 4), (5, 5)] 0 2 [] = Inl IndexError
   \<and> wave_search [(2, 2), (4, 1)] [(1, 3), (3, 4), (5, 5)] = Inl IndexError"
  by (simp add: detect_swings_three_highs wave_search_three_highs)
     (simp add: wave_body_def iloc_def)

text \<open>
  Claim C3, as stated, fails: on \<open>three_highs_series\<close> the IndexError of the search
  is caught inside \<open>identify_wave\<close>, reported, and the caller receives \<open>None\<close>.
\<close>

theorem identify_wave_swallows_counterexample:
  "identify_wave three_highs_series = (None, [ErrorReport IndexError])"
  by (simp add: identify_wave_def detect_swings_three_highs wave_search_three_highs)

text \<open>
  Claim C3, amended. \<open>identify_wave\<close> never passes a failure on to its caller: an
  exception of the search is caught, reported and replaced by the value \<open>None\<close>, the
  value also returned when no candidate was found; the returned value is \<open>None\<close>
  exactly when the search raised or found nothing.
\<close>

theorem identify_wave_swallows:
  assumes "detect_swings prices = (swing_highs, swing_lows)"
  shows "(\<forall>e. wave_search swing_lows swing_highs = Inl e
              \<longrightarrow> identify_wave prices = (None, [ErrorReport e]))
         \<and> (fst (identify_wave prices) = None
              \<longleftrightarrow> (\<exists>e. wave_search swing_lows swing_highs = Inl e)
                  \<or> wave_search swing_lows swing_highs = Inr [])"
proof (cases "wave_search swing_lows swing_highs")
  case (Inl e)
  with assms show ?thesis by (simp add: identify_wave_def)
next
  case (Inr wps)
  obtain label where "classify_pattern NpFloat64 (Some (last wps)) = Inr label"
    using classify_pattern_np by blast
  with Inr assms show ?thesis by (simp add: identify_wave_def Let_def)
qed

theorem identify_wave_swallows_witness:
  "detect_swings three_highs_series = ([(1, 3), (3, 4), (5, 5)], [(2, 2), (4, 1)])
   \<and> wave_search [(2, 2), (4, 1)] [(1, 3), (3, 4), (5, 5)] = Inl IndexError
   \<and> identify_wave three_highs_series = (None, [ErrorReport IndexError])
   \<and> fst (identify_wave three_highs_series) = None"
  using identify_wave_swallows [OF detect_swings_three_highs]
  by (simp add: detect_swings_three_highs wave_search_three_highs)

text \<open>
  Claim C6. Every candidate in the list that the search returns has a search-time
  retracement \<open>|(wave_2_low - wave_1_high) / wave_1_length|\<close>, the float64 value that
  the search computes from the prices that the candidate stores (a rounded quotient of
  rounded differences), which is a finite number in the closed interval from 0.5 to
  0.618: it passes the two comparisons of the gate, the second one with the float64 that
  the literal 0.618 denotes. This band is not the classifier's: with a retracement of
  0.4 the search emits nothing, whereas \<open>classify_pattern\<close> labels the same four
  points "Impulsive".
\<close>

theorem search_retracement_band:
  assumes "wave_search swing_lows swing_highs = Inr wave_points"
    and "c \<in> set wave_points"
  shows "fst (price_range (Wave_2 c)) = snd (price_range (Wave_1 c))
         \<and> (\<exists>r. np_abs (np_divide
                      (np_subtract (Finite (snd (price_range (Wave_2 c))))
                                   (Finite (snd (price_range (Wave_1 c)))))
                      (np_subtract (Finite (snd (price_range (Wave_1 c))))
                                   (Finite (fst (price_range (Wave_1 c)))))) = Finite r
                 \<and> np_le (Finite (1 / 2)) (Finite r)
                 \<and> np_le (Finite r) (f64_round (618 / 1000))
                 \<and> 1 / 2 \<le> r \<and> r \<le> 618 / 1000)
         \<and> wave_search [(1, 10), (3, 16)] [(2, 20), (4, 40)] = Inr []
         \<and> classify_pattern k (Some (wave_dict (1, 10) (2, 20) (3, 16) (4, 40)))
              = Inr ''Impulsive''"
proof -
  let ?r = "np_abs (np_divide
                      (np_subtract (Finite (snd (price_range (Wave_2 c))))
                                   (Finite (snd (price_range (Wave_1 c)))))
                      (np_subtract (Finite (snd (price_range (Wave_1 c))))
                                   (Finite (fst (price_range (Wave_1 c))))))"
  from wave_search_gate [OF assms]
  have chain: "fst (price_range (Wave_2 c)) = snd (price_range (Wave_1 c))"
    and lo: "np_le (Finite (1 / 2)) ?r"
    and hi: "np_le ?r (f64_round (618 / 1000))"
    by blast+
  from lo hi have "\<exists>r. ?r = Finite r \<and> np_le (Finite (1 / 2)) (Finite r)
                 \<and> np_le (Finite r) (f64_round (618 / 1000))
                 \<and> 1 / 2 \<le> r \<and> r \<le> 618 / 1000"
  proof (cases ?r)
    case (Finite r)
    with lo hi have "1 / 2 \<le> r" and "r \<le> 5566449139429933 / 9007199254740992"
      by (simp_all add: f64_literals)
    then have "1 / 2 \<le> r \<and> r \<le> 618 / 1000" by simp
    with Finite lo hi show ?thesis by simp
  qed (use lo hi in \<open>simp_all add: f64_literals\<close>)
  moreover have "wave_search [(1, 10), (3, 16)] [(2, 20), (4, 40)] = Inr []"
    by (simp add: wave_search_eval)
  moreover have "classify_pattern k (Some (wave_dict (1, 10) (2, 20) (3, 16) (4, 40)))
              = Inr ''Impulsive''"
    by (cases k) (simp_all add: wave_dict_def classify_eval)
  ultimately show ?thesis using chain by blast
qed

theorem search_retracement_band_witness:
  "wave_search [(1, 10), (3, 15)] [(2, 20), (4, 30)]
     = Inr [wave_dict (1, 10) (2, 20) (3, 15) (4, 30)]
   \<and> wave_dict (1, 10) (2, 20) (3, 15) (4, 30) \<in> set [wave_dict (1, 10) (2, 20) (3, 15) (4, 30)]
   \<and> np_abs (np_divide
        (np_subtract
           (Finite (snd (price_range (Wave_2 (wave_dict (1, 10) (2, 20) (3, 15) (4, 30))))))
           (Finite (snd (price_range (Wave_1 (wave_dict (1, 10) (2, 20) (3, 15) (4, 30)))))))
        (np_subtract
           (Finite (snd (price_range (Wave_1 (wave_dict (1, 10) (2, 20) (3, 15) (4, 30))))))
           (Finite (fst (price_range (Wave_1 (wave_dict (1, 10) (2, 20) (3, 15) (4, 30))))))))
       = Finite (1 / 2)"
  using search_retracement_band [OF wave_search_impulse,
          of "wave_dict (1, 10) (2, 20) (3, 15) (4, 30)"]
  by (simp add: wave_search_impulse) (simp add: wave_dict_def f64_values)

text \<open>
  Claim C10. Every candidate in the list that the search returns has a Wave 1 whose two
  prices differ, so that \<open>classify_pattern\<close> never divides by zero on it and returns
  a label, whatever the run-time type of the prices.
\<close>

theorem search_wave_1_nonzero:
  assumes "wave_search swing_lows swing_highs = Inr wave_points"
    and "c \<in> set wave_points"
  shows "fst (price_range (Wave_1 c)) \<noteq> snd (price_range (Wave_1 c))
         \<and> (\<exists>label. classify_pattern k (Some c) = Inr label)"
proof -
  from wave_search_gate [OF assms] obtain w
    where w: "np_subtract (Finite (snd (price_range (Wave_1 c))))
                          (Finite (fst (price_range (Wave_1 c)))) = Finite w"
      and nz: "w \<noteq> 0"
    by blast
  have ne: "fst (price_range (Wave_1 c)) \<noteq> snd (price_range (Wave_1 c))"
  proof
    assume "fst (price_range (Wave_1 c)) = snd (price_range (Wave_1 c))"
    with w nz show False by (simp add: f64_round_0)
  qed
  from w nz have "wave_length (price_range (Wave_1 c)) \<noteq> Finite 0"
    by (simp add: wave_length_def)
  then have "\<exists>label. classify_pattern k (Some c) = Inr label"
    by (simp add: classify_pattern_nonzero)
  with ne show ?thesis by blast
qed

theorem search_wave_1_nonzero_witness:
  "wave_search [(1, 10), (3, 15)] [(2, 20), (4, 30)]
     = Inr [wave_dict (1, 10) (2, 20) (3, 15) (4, 30)]
   \<and> wave_dict (1, 10) (2, 20) (3, 15) (4, 30) \<in> set [wave_dict (1, 10) (2, 20) (3, 15) (4, 30)]
   \<and> price_range (Wave_1 (wave_dict (1, 10) (2, 20) (3, 15) (4, 30))) = (10, 20)
   \<and> (\<exists>label. classify_pattern PyNumber (Some (wave_dict (1, 10) (2, 20) (3, 15) (4, 30)))
                = Inr label)"
  using search_wave_1_nonzero [OF wave_search_impulse,
          of "wave_dict (1, 10) (2, 20) (3, 15) (4, 30)" PyNumber]
  by (simp add: wave_search_impulse) (simp add: wave_dict_def)

text \<open>
  Claim C8, as stated, fails. On \<open>four_highs_series\<close>, with four swing highs and three
  swing lows, the loop body appends a candidate for the pair \<open>(0, 2)\<close> and raises
  IndexError for the pair \<open>(0, 3)\<close>: a candidate was found, yet \<open>identify_wave\<close>
  reports the error and returns \<open>None\<close>. And where a candidate is selected, as on
  \<open>impulse_series\<close>, the value returned is the candidate alone; its label is printed.
\<close>

theorem identify_wave_selects_last_counterexample:
  "detect_swings four_highs_series
     = ([(1, 12), (3, 20), (5, 16), (7, 30)], [(2, 10), (4, 14), (6, 15)])
   \<and> wave_body [(2, 10), (4, 14), (6, 15)] [(1, 12), (3, 20), (5, 16), (7, 30)] 0 2 []
       = Inr [wave_dict (2, 10) (3, 20) (6, 15) (5, 16)]
   \<and> wave_body [(2, 10), (4, 14), (6, 15)] [(1, 12), (3, 20), (5, 16), (7, 30)] 0 3
         [wave_dict (2, 10) (3, 20) (6, 15) (5, 16)]
       = Inl IndexError
   \<and> identify_wave four_highs_series = (None, [ErrorReport IndexError])
   \<and> fst (identify_wave impulse_series) = Some (wave_dict (1, 10) (2, 20) (3, 15) (4, 30))
   \<and> snd (identify_wave impulse_series)
       = [LatestWave (wave_dict (1, 10) (2, 20) (3, 15) (4, 30)),
          PatternClassification ''Impulsive'']"
proof (intro conjI)
  show ds: "detect_swings four_highs_series
     = ([(1, 12), (3, 20), (5, 16), (7, 30)], [(2, 10), (4, 14), (6, 15)])"
    by (simp add: four_highs_series_def detect_swings_eval)
  show "wave_body [(2, 10), (4, 14), (6, 15)] [(1, 12), (3, 20), (5, 16), (7, 30)] 0 2 []
       = Inr [wave_dict (2, 10) (3, 20) (6, 15) (5, 16)]"
    by (simp add: wave_body_def iloc_def Let_def f64_values f64_literals)
  show "wave_body [(2, 10), (4, 14), (6, 15)] [(1, 12), (3, 20), (5, 16), (7, 30)] 0 3
         [wave_dict (2, 10) (3, 20) (6, 15) (5, 16)]
       = Inl IndexError"
    by (simp add: wave_body_def iloc_def)
  have "wave_search [(2, 10), (4, 14), (6, 15)] [(1, 12), (3, 20), (5, 16), (7, 30)]
          = Inl IndexError"
    by (simp add: wave_search_eval)
  with ds show "identify_wave four_highs_series = (None, [ErrorReport IndexError])"
    by (simp add: identify_wave_def)
  have iw: "identify_wave impulse_series
        = (Some (wave_dict (1, 10) (2, 20) (3, 15) (4, 30)),
           [LatestWave (wave_dict (1, 10) (2, 20) (3, 15) (4, 30)),
            PatternClassification ''Impulsive''])"
    by (simp add: identify_wave_def detect_swings_impulse wave_search_impulse)
       (simp add: wave_dict_def classify_eval)
  from iw show "fst (identify_wave impulse_series)
      = Some (wave_dict (1, 10) (2, 20) (3, 15) (4, 30))"
    by simp
  from iw show "snd (identify_wave impulse_series)
       = [LatestWave (wave_dict (1, 10) (2, 20) (3, 15) (4, 30)),
          PatternClassification ''Impulsive'']"
    by simp
qed

text \<open>
  Claim C8, amended. For every series: when the search raises, \<open>identify_wave\<close> prints
  the error and returns \<open>None\<close>, whatever had been appended before. When the search
  runs to its end, the list it returns is the concatenation of what the loop body emits
  for the pairs \<open>(i, j)\<close>, \<open>i\<close> ascending and then \<open>j\<close> ascending; if it is empty,
  \<open>identify_wave\<close> prints that no pattern was found and returns \<open>None\<close>; otherwise it
  takes the last element, which was emitted for the greatest accepted pair in that order,
  classifies it, prints the label and returns the candidate alone.
\<close>

theorem identify_wave_selects_last:
  assumes ds: "detect_swings prices = (swing_highs, swing_lows)"
  shows "(wave_search swing_lows swing_highs = Inl e \<longrightarrow>
            identify_wave prices = (None, [ErrorReport e]))
         \<and> (wave_search swing_lows swing_highs = Inr wave_points \<longrightarrow>
              wave_points = concat (map (\<lambda>i. concat (map (emitted swing_lows swing_highs i)
                                                        [i + 1 ..< length swing_highs]))
                                     [0 ..< length swing_lows - 1])
              \<and> (wave_points = [] \<longrightarrow> identify_wave prices = (None, [NoValidPatterns]))
              \<and> (wave_points \<noteq> [] \<longrightarrow>
                   (\<exists>label. classify_pattern NpFloat64 (Some (last wave_points)) = Inr label
                      \<and> identify_wave prices
                          = (Some (last wave_points),
                             [LatestWave (last wave_points), PatternClassification label]))
                   \<and> (\<exists>i j. i < length swing_lows - 1 \<and> i < j \<and> j < length swing_highs
                          \<and> emitted swing_lows swing_highs i j = [last wave_points]
                          \<and> (\<forall>i' j'. i' < length swing_lows - 1 \<and> i' < j'
                                      \<and> j' < length swing_highs
                                      \<and> emitted swing_lows swing_highs i' j' \<noteq> []
                                      \<longrightarrow> i' < i \<or> (i' = i \<and> j' \<le> j)))))"
proof (intro conjI impI)
  assume "wave_search swing_lows swing_highs = Inl e"
  with ds show "identify_wave prices = (None, [ErrorReport e])"
    by (simp add: identify_wave_def)
next
  assume ws: "wave_search swing_lows swing_highs = Inr wave_points"
  show "wave_points = concat (map (\<lambda>i. concat (map (emitted swing_lows swing_highs i)
                                                   [i + 1 ..< length swing_highs]))
                                [0 ..< length swing_lows - 1])"
    by (rule wave_search_order [OF ws])
next
  assume "wave_search swing_lows swing_highs = Inr wave_points" and "wave_points = []"
  with ds show "identify_wave prices = (None, [NoValidPatterns])"
    by (simp add: identify_wave_def)
next
  assume ws: "wave_search swing_lows swing_highs = Inr wave_points"
    and ne: "wave_points \<noteq> []"
  obtain label where "classify_pattern NpFloat64 (Some (last wave_points)) = Inr label"
    using classify_pattern_np by blast
  with ds ws ne
  show "\<exists>label. classify_pattern NpFloat64 (Some (last wave_points)) = Inr label
                 \<and> identify_wave prices
                     = (Some (last wave_points),
                        [LatestWave (last wave_points), PatternClassification label])"
    by (simp add: identify_wave_def Let_def)
next
  assume ws: "wave_search swing_lows swing_highs = Inr wave_points"
    and ne: "wave_points \<noteq> []"
  show "\<exists>i j. i < length swing_lows - 1 \<and> i < j \<and> j < length swing_highs
                     \<and> emitted swing_lows swing_highs i j = [last wave_points]
                     \<and> (\<forall>i' j'. i' < length swing_lows - 1 \<and> i' < j'
                                 \<and> j' < length swing_highs
                                 \<and> emitted swing_lows swing_highs i' j' \<noteq> []
                                 \<longrightarrow> i' < i \<or> (i' = i \<and> j' \<le> j))"
    by (rule wave_search_last [OF ws ne])
qed

theorem identify_wave_selects_last_witness:
  "detect_swings four_highs_series
     = ([(1, 12), (3, 20), (5, 16), (7, 30)], [(2, 10), (4, 14), (6, 15)])
   \<and> wave_search [(2, 10), (4, 14), (6, 15)] [(1, 12), (3, 20), (5, 16), (7, 30)]
        = Inl IndexError
   \<and> identify_wave four_highs_series = (None, [ErrorReport IndexError])
   \<and> detect_swings rising_series = ([], []) \<and> wave_search [] [] = Inr []
   \<and> identify_wave rising_series = (None, [NoValidPatterns])
   \<and> detect_swings impulse_series = ([(2, 20), (4, 30)], [(1, 10), (3, 15)])
   \<and> wave_search [(1, 10), (3, 15)] [(2, 20), (4, 30)]
        = Inr [wave_dict (1, 10) (2, 20) (3, 15) (4, 30)]
   \<and> identify_wave impulse_series
        = (Some (wave_dict (1, 10) (2, 20) (3, 15) (4, 30)),
           [LatestWave (wave_dict (1, 10) (2, 20) (3, 15) (4, 30)),
            PatternClassification ''Impulsive''])"
proof -
  have ds: "detect_swings four_highs_series
     = ([(1, 12), (3, 20), (5, 16), (7, 30)], [(2, 10), (4, 14), (6, 15)])"
    by (simp add: four_highs_series_def detect_swings_eval)
  have ws: "wave_search [(2, 10), (4, 14), (6, 15)] [(1, 12), (3, 20), (5, 16), (7, 30)]
        = Inl IndexError"
    by (simp add: wave_search_eval)
  from identify_wave_selects_last [OF ds, of IndexError] ws
  have c: "identify_wave four_highs_series = (None, [ErrorReport IndexError])"
    by simp
  from identify_wave_selects_last [OF detect_swings_rising, of _ "[]"] wave_search_rising
  have a: "identify_wave rising_series = (None, [NoValidPatterns])"
    by simp
  have l: "classify_pattern NpFloat64 (Some (wave_dict (1, 10) (2, 20) (3, 15) (4, 30)))
             = Inr ''Impulsive''"
    by (simp add: wave_dict_def classify_eval)
  from identify_wave_selects_last [OF detect_swings_impulse,
         of _ "[wave_dict (1, 10) (2, 20) (3, 15) (4, 30)]"] wave_search_impulse l
  have b: "identify_wave impulse_series
        = (Some (wave_dict (1, 10) (2, 20) (3, 15) (4, 30)),
           [LatestWave (wave_dict (1, 10) (2, 20) (3, 15) (4, 30)),
            PatternClassification ''Impulsive''])"
    by simp
  from a b c ds ws show ?thesis
    by (simp add: detect_swings_rising wave_search_rising detect_swings_impulse
          wave_search_impulse)
qed

section \<open>Rounding: where the computed ratio and the exact quotient part\<close>

text \<open>
  The ratio that the gates test is the rounded quotient of rounded differences. On
  \<open>decimal_wave_a\<close> it is 0.618 (the float64) and passes both gates, although the exact
  quotient of the stored prices exceeds 618/1000; on \<open>decimal_wave_b\<close> it is the next
  float64 above and fails both gates, although the exact quotient lies between 382/1000
  and 618/1000 and Wave 3 is the longer one.
\<close>

lemma decimal_wave_a_ratio:
  "np_divide (wave_length (price_range (Wave_2 decimal_wave_a)))
             (wave_length (price_range (Wave_1 decimal_wave_a)))
     = f64_round (618 / 1000)
   \<and> 618 / 1000 < \<bar>snd (price_range (Wave_2 decimal_wave_a))
                     - fst (price_range (Wave_2 decimal_wave_a))\<bar>
                  / \<bar>snd (price_range (Wave_1 decimal_wave_a))
                     - fst (price_range (Wave_1 decimal_wave_a))\<bar>"
  by code_simp

lemma decimal_wave_b_ratio:
  "np_divide (wave_length (price_range (Wave_2 decimal_wave_b)))
             (wave_length (price_range (Wave_1 decimal_wave_b)))
     = Finite (5566449139429934 / 9007199254740992)
   \<and> \<bar>snd (price_range (Wave_2 decimal_wave_b))
        - fst (price_range (Wave_2 decimal_wave_b))\<bar>
      / \<bar>snd (price_range (Wave_1 decimal_wave_b))
         - fst (price_range (Wave_1 decimal_wave_b))\<bar> \<le> 618 / 1000
   \<and> \<bar>snd (price_range (Wave_1 decimal_wave_b))
        - fst (price_range (Wave_1 decimal_wave_b))\<bar>
      < \<bar>snd (price_range (Wave_3 decimal_wave_b))
           - fst (price_range (Wave_3 decimal_wave_b))\<bar>"
  by code_simp

lemma classify_pattern_decimal:
  "classify_pattern PyNumber (Some decimal_wave_a) = Inr ''Impulsive''"
  "classify_pattern NpFloat64 (Some decimal_wave_a) = Inr ''Impulsive''"
  "classify_pattern PyNumber (Some decimal_wave_b) = Inr ''Corrective''"
  "classify_pattern NpFloat64 (Some decimal_wave_b) = Inr ''Corrective''"
  by code_simp+

lemma identify_wave_decimal:
  "identify_wave decimal_series_a
     = (Some decimal_wave_a, [LatestWave decimal_wave_a, PatternClassification ''Impulsive''])"
  "identify_wave decimal_series_b = (None, [NoValidPatterns])"
  by code_simp+

end
